theory Spec2Isabelle
  imports Complex_Main
begin

section \<open>Types of the Comfy-Cloud API (src/types/comfyCloudTypes.ts)\<close>

text \<open>
  The interfaces the session store handles, field by field. A JavaScript \<open>number\<close> is
  rendered as \<^typ>\<open>real\<close>: the store only keeps these values and hands them on, it never
  computes with them. The field \<open>id\<close> is written \<open>id'\<close>, the name \<open>id\<close> being the identity
  function of HOL. An optional field is an \<^typ>\<open>'a option\<close>.
\<close>

datatype SubscriptionTier = Basic | Pro | Enterprise

datatype SubscriptionStatus = Active | Expired | Cancelled

record SubscriptionFeatures =
  gpu_access :: bool
  vip_models :: bool
  storage_limit_gb :: real
  concurrent_tasks :: real

record ComfyCloudSubscription =
  tier :: SubscriptionTier
  status :: SubscriptionStatus
  started_at :: string
  expires_at :: string
  auto_renew :: bool
  features :: SubscriptionFeatures

record ComfyCloudUser =
  id' :: real
  username :: string
  email :: string
  tier :: SubscriptionTier
  balance :: real
  storage_used :: real
  storage_limit :: real
  created_at :: string
  subscription :: "ComfyCloudSubscription option"

record ComfyCloudBalance =
  balance :: real
  currency :: string
  last_updated :: string

record LoginResponse =
  token :: string
  user :: ComfyCloudUser

record RegisterResponse =
  token :: string
  user :: ComfyCloudUser

record ComfyCloudAuthHeader =
  Authorization :: string


section \<open>The collaborators: HTTP transport, translations, notifications\<close>

text \<open>
  A JSON value, as \<open>response.json()\<close> can deliver one where the source gives it no type,
  and the truth value JavaScript gives it: null, false, zero and the empty string are
  false, every array and object is true.
\<close>

datatype jvalue =
    JNull
  | JBool bool
  | JNum real
  | JStr string
  | JArr "jvalue list"
  | JObj "(string \<times> jvalue) list"

fun js_truthy :: "jvalue \<Rightarrow> bool" where
  "js_truthy JNull = False"
| "js_truthy (JBool b) = b"
| "js_truthy (JNum x) = (x \<noteq> 0)"
| "js_truthy (JStr m) = (m \<noteq> [])"
| "js_truthy (JArr _) = True"
| "js_truthy (JObj _) = True"

text \<open>
  A message is a literal string, the translation \<open>t(key)\<close> of a key (the translation tables
  are not part of the sources, so the key stands for its translation), or the string
  \<open>String(v)\<close> that the \<open>Error\<close> constructor makes of a value \<open>v\<close> that is not a string.
\<close>

datatype msg = Text string | Translated string | Stringified jvalue

text \<open>
  What the store can throw: its own \<open>ComfyCloudAuthError\<close>, the error \<open>fetch\<close> rejects with
  when the transport fails, the error \<open>response.json()\<close> rejects with when the body is not
  JSON, and the \<open>TypeError\<close> of reading a property (named by the argument) of a parsed
  body that is null.
\<close>

datatype thrown =
    ComfyCloudAuthError msg
  | FetchRejected string
  | JsonRejected string
  | TypeError string

text \<open>The message of that \<open>TypeError\<close>, in the wording of V8.\<close>

definition null_read :: "string \<Rightarrow> string" where
  "null_read p =
     ''Cannot read properties of null (reading '' @ [CHR 0x27] @ p @ [CHR 0x27] @ '')''"

fun message :: "thrown \<Rightarrow> msg" where
  "message (ComfyCloudAuthError m) = m"
| "message (FetchRejected m) = Text m"
| "message (JsonRejected m) = Text m"
| "message (TypeError p) = Text (null_read p)"

datatype http_method = GET | POST

datatype request_body =
    LoginRequest string string
  | RegisterRequest string string string

record request =
  http_method :: http_method
  url :: string
  headers :: "(string \<times> string) list"
  body :: "request_body option"

text \<open>
  The body of a response as \<open>response.json()\<close> delivers it. The promise rejects when the body
  is not JSON. The body may be JSON null, of which no property can be read. Any other
  parsed value the store reads in one of two ways, depending on the branch it is in: where
  the response was not a success, its \<open>error\<close> property, which the source leaves untyped
  (\<open>None\<close> where the value has no such property, as a number, a string, a boolean, an
  array and an object without it have none); where the response was a success, the value
  at the type the source declares for it.
\<close>

datatype 'a json_body =
    Unparsable string
  | JsonNull
  | Parsed (error_field: "jvalue option") (payload: 'a)

record 'a response =
  status :: nat
  json :: "'a json_body"

text \<open>\<open>response.ok\<close> of the Fetch API: a status from 200 to 299.\<close>

definition ok :: "'a response \<Rightarrow> bool" where
  "ok r = (200 \<le> response.status r \<and> response.status r \<le> 299)"

text \<open>How the promise of a \<open>fetch\<close> settles: rejected by the transport, or resolved.\<close>

datatype 'a outcome =
    Rejected string
  | Resolved "'a response"

datatype severity = Success | Info | Error

record toast =
  severity :: severity
  summary :: msg
  life :: "nat option"


section \<open>The state of the session store (src/stores/comfyCloudAuthStore.ts, lines 33-40)\<close>

text \<open>
  The seven refs of the store, and beside them what its collaborators hold: the
  notifications handed to the toast store, the requests handed to \<open>fetch\<close> (in order), and
  the token value the watcher of lines 273-294 has seen last. A \<open>Date\<close> is a number of
  milliseconds.
\<close>

record store =
  token :: "string option"
  currentUser :: "ComfyCloudUser option"
  isInitialized :: bool
  loading :: bool
  balance :: "ComfyCloudBalance option"
  lastBalanceUpdateTime :: "nat option"
  isFetchingBalance :: bool
  toasts :: "toast list"
  requests :: "request list"
  watched :: "string option"

text \<open>The truth value JavaScript gives a \<open>string | null\<close>: null and the empty string are false.\<close>

definition truthy :: "string option \<Rightarrow> bool" where
  "truthy v = (case v of None \<Rightarrow> False | Some t \<Rightarrow> t \<noteq> [])"

text \<open>Line 43: \<open>!!currentUser.value && !!token.value\<close>; an object is always true.\<close>

definition isAuthenticated :: "store \<Rightarrow> bool" where
  "isAuthenticated s = (currentUser s \<noteq> None \<and> truthy (token s))"

definition userEmail :: "store \<Rightarrow> string option" where
  "userEmail s = map_option email (currentUser s)"

definition userId :: "store \<Rightarrow> real option" where
  "userId s = map_option id' (currentUser s)"

definition userTier :: "store \<Rightarrow> SubscriptionTier option" where
  "userTier s = map_option ComfyCloudUser.tier (currentUser s)"

definition API_BASE :: string where
  "API_BASE = ''/api''"

definition buildApiUrl :: "string \<Rightarrow> string" where
  "buildApiUrl path = API_BASE @ path"


section \<open>Requests\<close>

text \<open>
  Every asynchronous operation of the store suspends at one \<open>fetch\<close>, and the outcome of
  that \<open>fetch\<close> is an argument of the operation: an operation is run from its call to its
  return with nothing else in between, the execution being single-threaded. Where the
  store is visible while a request is in flight (the user request of the watcher at the
  start, the balance request that login fires and does not wait for), the operation
  \<open>f\<close> is given in two parts: what runs up to the \<open>await\<close> (\<open>f_begin\<close>, which hands the
  request to the transport) and what runs once the promise has settled (\<open>f_settle\<close>, which
  takes the outcome); \<open>f\<close> itself is their composition.
\<close>

definition fetch :: "request \<Rightarrow> store \<Rightarrow> store" where
  "fetch req s = s\<lparr>requests := requests s @ [req]\<rparr>"

text \<open>
  Lines 56-68. No caller passes headers or a body in \<open>options\<close>, only a method (none: the
  default of \<open>fetch\<close>, GET).
\<close>

definition auth_headers :: "store \<Rightarrow> (string \<times> string) list" where
  "auth_headers s =
     (''Content-Type'', ''application/json'') #
     (case token s of
        None \<Rightarrow> []
      | Some t \<Rightarrow> if t \<noteq> [] then [(''Authorization'', ''Bearer '' @ t)] else [])"

definition fetchWithAuth_begin :: "string \<Rightarrow> http_method \<Rightarrow> store \<Rightarrow> store" where
  "fetchWithAuth_begin u m s =
     fetch \<lparr>http_method = m, url = u, headers = auth_headers s, body = None\<rparr> s"

text \<open>Line 74: the error thrown on a 401.\<close>

definition userNotAuthenticated :: thrown where
  "userNotAuthenticated = ComfyCloudAuthError (Translated ''toastMessages.userNotAuthenticated'')"

text \<open>Lines 70-77.\<close>

definition fetchWithAuth_settle ::
    "'a outcome \<Rightarrow> store \<Rightarrow> (thrown + 'a response) \<times> store" where
  "fetchWithAuth_settle out s =
     (case out of
        Rejected m \<Rightarrow> (Inl (FetchRejected m), s)
      | Resolved r \<Rightarrow>
          if response.status r = 401
          then (Inl userNotAuthenticated, s\<lparr>token := None, currentUser := None\<rparr>)
          else (Inr r, s))"

definition fetchWithAuth ::
    "string \<Rightarrow> http_method \<Rightarrow> 'a outcome \<Rightarrow> store \<Rightarrow> (thrown + 'a response) \<times> store" where
  "fetchWithAuth u m out s = fetchWithAuth_settle out (fetchWithAuth_begin u m s)"

text \<open>
  The message of \<open>new ComfyCloudAuthError(errorData.error || fallback)\<close>: a property that is
  absent or false gives the fallback, a string that is not empty is the message, and any
  other true value is turned into a string by the constructor.
\<close>

definition error_or :: "jvalue option \<Rightarrow> string \<Rightarrow> msg" where
  "error_or e d =
     (case e of
        None \<Rightarrow> Text d
      | Some v \<Rightarrow>
          if js_truthy v then (case v of JStr m \<Rightarrow> Text m | _ \<Rightarrow> Stringified v)
          else Text d)"


section \<open>fetchUserInfo (lines 81-94)\<close>

definition fetchUserInfo_begin :: "store \<Rightarrow> store" where
  "fetchUserInfo_begin s = fetchWithAuth_begin (buildApiUrl ''/user/info'') GET s"

text \<open>
  Lines 84-93 read no property of a successful body: a body that is null is stored and
  returned as it is (\<open>None\<close>).
\<close>

definition fetchUserInfo_settle ::
    "ComfyCloudUser outcome \<Rightarrow> store \<Rightarrow> (thrown + ComfyCloudUser option) \<times> store" where
  "fetchUserInfo_settle out s =
     (case fetchWithAuth_settle out s of
        (Inl e, s1) \<Rightarrow> (Inl e, s1)
      | (Inr r, s1) \<Rightarrow>
          if \<not> ok r
          then (case json r of
                  Unparsable m \<Rightarrow> (Inl (JsonRejected m), s1)
                | JsonNull \<Rightarrow> (Inl (TypeError ''error''), s1)
                | Parsed e _ \<Rightarrow>
                    (Inl (ComfyCloudAuthError (error_or e ''Failed to fetch user info'')), s1))
          else (case json r of
                  Unparsable m \<Rightarrow> (Inl (JsonRejected m), s1)
                | JsonNull \<Rightarrow> (Inr None, s1\<lparr>currentUser := None\<rparr>)
                | Parsed _ userData \<Rightarrow>
                    (Inr (Some userData), s1\<lparr>currentUser := Some userData\<rparr>)))"

definition fetchUserInfo ::
    "ComfyCloudUser outcome \<Rightarrow> store \<Rightarrow> (thrown + ComfyCloudUser option) \<times> store" where
  "fetchUserInfo out s = fetchUserInfo_settle out (fetchUserInfo_begin s)"


section \<open>fetchBalance (lines 97-121)\<close>

text \<open>Lines 100-102, up to the \<open>await\<close>.\<close>

definition fetchBalance_begin :: "store \<Rightarrow> store" where
  "fetchBalance_begin s =
     fetchWithAuth_begin (buildApiUrl ''/user/balance'') GET (s\<lparr>isFetchingBalance := True\<rparr>)"

text \<open>
  Lines 102-120 from the \<open>await\<close> on; \<open>now\<close> is what \<open>new Date()\<close> reads. The \<open>finally\<close>
  block runs on every path. Lines 114-117 read no property of a successful body: a body
  that is null is stored and returned as it is.
\<close>

definition fetchBalance_settle ::
    "nat \<Rightarrow> ComfyCloudBalance outcome \<Rightarrow> store
       \<Rightarrow> (thrown + ComfyCloudBalance option) \<times> store" where
  "fetchBalance_settle now out s =
     (let (res, s2) =
        (case fetchWithAuth_settle out s of
           (Inl e, s1) \<Rightarrow> (Inl e, s1)
         | (Inr r, s1) \<Rightarrow>
             if \<not> ok r
             then (if response.status r = 404 then (Inr None, s1)
                   else (case json r of
                           Unparsable m \<Rightarrow> (Inl (JsonRejected m), s1)
                         | JsonNull \<Rightarrow> (Inl (TypeError ''error''), s1)
                         | Parsed e _ \<Rightarrow>
                             (Inl (ComfyCloudAuthError (error_or e ''Failed to fetch balance'')),
                              s1)))
             else (case json r of
                     Unparsable m \<Rightarrow> (Inl (JsonRejected m), s1)
                   | JsonNull \<Rightarrow>
                       (Inr None, s1\<lparr>balance := None, lastBalanceUpdateTime := Some now\<rparr>)
                   | Parsed _ balanceData \<Rightarrow>
                       (Inr (Some balanceData),
                        s1\<lparr>balance := Some balanceData, lastBalanceUpdateTime := Some now\<rparr>)))
      in (res, s2\<lparr>isFetchingBalance := False\<rparr>))"

definition fetchBalance ::
    "nat \<Rightarrow> ComfyCloudBalance outcome \<Rightarrow> store
       \<Rightarrow> (thrown + ComfyCloudBalance option) \<times> store" where
  "fetchBalance now out s =
     (if \<not> isAuthenticated s then (Inr None, s)
      else fetchBalance_settle now out (fetchBalance_begin s))"

text \<open>
  \<open>void fetchBalance()\<close> (line 154): the call runs up to its \<open>await\<close> and nobody waits for
  the rest, which \<^const>\<open>fetchBalance_settle\<close> gives when the response arrives.
\<close>

definition fetchBalance_fired :: "store \<Rightarrow> store" where
  "fetchBalance_fired s = (if \<not> isAuthenticated s then s else fetchBalance_begin s)"


section \<open>Notifications and the error boundary\<close>

text \<open>
  Modelled from the spec: the toast store (platform/updates/common/toastStore) is not among
  the sources. It is the external notification collaborator through which the store
  surfaces its success, information and error notifications; \<open>add\<close> records one.
\<close>

definition toast_add :: "toast \<Rightarrow> store \<Rightarrow> store" where
  "toast_add n s = s\<lparr>toasts := toasts s @ [n]\<rparr>"

text \<open>
  Modelled from the spec: \<open>useErrorHandling\<close> (composables/useErrorHandling) is not among the
  sources. By the spec the failures of login, register and logout are caught at the
  boundary and surfaced as user-visible notifications, they do not reach the caller, and
  the notification carries the message of the failure. So the handler adds an error
  notification with the message of what was thrown, and the wrapped action returns
  nothing (\<open>None\<close>) where the action threw.
\<close>

definition toastErrorHandler :: "thrown \<Rightarrow> store \<Rightarrow> store" where
  "toastErrorHandler e s = toast_add \<lparr>severity = Error, summary = message e, life = None\<rparr> s"

definition wrapWithErrorHandlingAsync ::
    "(store \<Rightarrow> (thrown + 'a) \<times> store) \<Rightarrow> (thrown \<Rightarrow> store \<Rightarrow> store)
       \<Rightarrow> store \<Rightarrow> 'a option \<times> store" where
  "wrapWithErrorHandlingAsync action handler s =
     (case action s of
        (Inl e, s1) \<Rightarrow> (None, handler e s1)
      | (Inr v, s1) \<Rightarrow> (Some v, s1))"


section \<open>login (lines 124-162) and register (lines 165-206)\<close>

definition login_request :: "string \<Rightarrow> string \<Rightarrow> request" where
  "login_request u p =
     \<lparr>http_method = POST, url = buildApiUrl ''/auth/login'',
      headers = [(''Content-Type'', ''application/json'')],
      body = Some (LoginRequest u p)\<rparr>"

text \<open>
  The function handed to the wrapper; its \<open>finally\<close> block runs on every path. Of a body
  that is null, line 140 cannot read \<open>error\<close> and line 144 cannot read \<open>token\<close>: both throw
  before anything is assigned.
\<close>

definition login_body ::
    "string \<Rightarrow> string \<Rightarrow> LoginResponse outcome \<Rightarrow> store
       \<Rightarrow> (thrown + LoginResponse) \<times> store" where
  "login_body u p out s =
     (let s0 = fetch (login_request u p) (s\<lparr>loading := True\<rparr>);
          (res, s5) =
            (case out of
               Rejected m \<Rightarrow> (Inl (FetchRejected m), s0)
             | Resolved r \<Rightarrow>
                 if \<not> ok r
                 then (case json r of
                         Unparsable m \<Rightarrow> (Inl (JsonRejected m), s0)
                       | JsonNull \<Rightarrow> (Inl (TypeError ''error''), s0)
                       | Parsed e _ \<Rightarrow>
                           (Inl (ComfyCloudAuthError (error_or e ''Login failed'')), s0))
                 else (case json r of
                         Unparsable m \<Rightarrow> (Inl (JsonRejected m), s0)
                       | JsonNull \<Rightarrow> (Inl (TypeError ''token''), s0)
                       | Parsed _ data \<Rightarrow>
                           let s2 = s0\<lparr>token := Some (LoginResponse.token data),
                                       currentUser := Some (LoginResponse.user data)\<rparr>;
                               s3 = toast_add \<lparr>severity = Success,
                                               summary = Translated ''auth.login.success'',
                                               life = Some 3000\<rparr> s2;
                               s4 = fetchBalance_fired s3
                           in (Inr data, s4)))
      in (res, s5\<lparr>loading := False\<rparr>))"

definition login ::
    "string \<Rightarrow> string \<Rightarrow> LoginResponse outcome \<Rightarrow> store \<Rightarrow> LoginResponse option \<times> store" where
  "login u p out = wrapWithErrorHandlingAsync (login_body u p out) toastErrorHandler"

definition register_request :: "string \<Rightarrow> string \<Rightarrow> string \<Rightarrow> request" where
  "register_request u e p =
     \<lparr>http_method = POST, url = buildApiUrl ''/auth/register'',
      headers = [(''Content-Type'', ''application/json'')],
      body = Some (RegisterRequest u e p)\<rparr>"

definition register_body ::
    "string \<Rightarrow> string \<Rightarrow> string \<Rightarrow> RegisterResponse outcome \<Rightarrow> store
       \<Rightarrow> (thrown + RegisterResponse) \<times> store" where
  "register_body u e p out s =
     (let s0 = fetch (register_request u e p) (s\<lparr>loading := True\<rparr>);
          (res, s4) =
            (case out of
               Rejected m \<Rightarrow> (Inl (FetchRejected m), s0)
             | Resolved r \<Rightarrow>
                 if \<not> ok r
                 then (case json r of
                         Unparsable m \<Rightarrow> (Inl (JsonRejected m), s0)
                       | JsonNull \<Rightarrow> (Inl (TypeError ''error''), s0)
                       | Parsed err _ \<Rightarrow>
                           (Inl (ComfyCloudAuthError (error_or err ''Registration failed'')), s0))
                 else (case json r of
                         Unparsable m \<Rightarrow> (Inl (JsonRejected m), s0)
                       | JsonNull \<Rightarrow> (Inl (TypeError ''token''), s0)
                       | Parsed _ data \<Rightarrow>
                           let s2 = s0\<lparr>token := Some (RegisterResponse.token data),
                                       currentUser := Some (RegisterResponse.user data)\<rparr>;
                               s3 = toast_add \<lparr>severity = Success,
                                               summary = Translated ''auth.register.success'',
                                               life = Some 3000\<rparr> s2
                           in (Inr data, s3)))
      in (res, s4\<lparr>loading := False\<rparr>))"

definition register ::
    "string \<Rightarrow> string \<Rightarrow> string \<Rightarrow> RegisterResponse outcome \<Rightarrow> store
       \<Rightarrow> RegisterResponse option \<times> store" where
  "register u e p out = wrapWithErrorHandlingAsync (register_body u e p out) toastErrorHandler"


section \<open>logout (lines 209-236)\<close>

text \<open>
  The server call is made only with a token, and \<open>.catch(() => {})\<close> drops whatever it
  throws: only its effect on the state remains. The body of the response is never read.
\<close>

definition logout_body :: "unit outcome \<Rightarrow> store \<Rightarrow> (thrown + unit) \<times> store" where
  "logout_body out s =
     (let s0 = s\<lparr>loading := True\<rparr>;
          s1 = (if truthy (token s0)
                then snd (fetchWithAuth (buildApiUrl ''/auth/logout'') POST out s0)
                else s0);
          s2 = s1\<lparr>token := None, currentUser := None, balance := None,
                  lastBalanceUpdateTime := None\<rparr>;
          s3 = toast_add \<lparr>severity = Info, summary = Translated ''auth.logout.success'',
                          life = Some 3000\<rparr> s2
      in (Inr (), s3\<lparr>loading := False\<rparr>))"

definition logout :: "unit outcome \<Rightarrow> store \<Rightarrow> unit option \<times> store" where
  "logout out = wrapWithErrorHandlingAsync (logout_body out) toastErrorHandler"


section \<open>refreshToken (lines 239-257)\<close>

text \<open>
  The \<open>try\<close> block. The parsed body is untyped in the source and only its \<open>token\<close> property
  is read, so that property (absent: \<open>None\<close>) is the payload.
\<close>

definition refreshToken_try ::
    "string option outcome \<Rightarrow> store \<Rightarrow> (thrown + string option) \<times> store" where
  "refreshToken_try out s =
     (case fetchWithAuth (buildApiUrl ''/auth/refresh'') POST out s of
        (Inl e, s1) \<Rightarrow> (Inl e, s1)
      | (Inr r, s1) \<Rightarrow>
          if \<not> ok r then (Inr None, s1)
          else (case json r of
                  Unparsable m \<Rightarrow> (Inl (JsonRejected m), s1)
                | JsonNull \<Rightarrow> (Inl (TypeError ''token''), s1)
                | Parsed _ data_token \<Rightarrow> (Inr data_token, s1\<lparr>token := data_token\<rparr>)))"

text \<open>The guard of line 240, and the \<open>catch\<close> of lines 254-256 around the block.\<close>

definition refreshToken ::
    "string option outcome \<Rightarrow> store \<Rightarrow> (thrown + string option) \<times> store" where
  "refreshToken out s =
     (if \<not> truthy (token s) then (Inr None, s)
      else (case refreshToken_try out s of
              (Inl e, s1) \<Rightarrow> (Inr None, s1)
            | (Inr v, s1) \<Rightarrow> (Inr v, s1)))"


section \<open>getAuthHeader and getAuthToken (lines 260-270)\<close>

definition getAuthHeader :: "store \<Rightarrow> ComfyCloudAuthHeader option \<times> store" where
  "getAuthHeader s =
     (case token s of
        None \<Rightarrow> (None, s)
      | Some t \<Rightarrow> if t = [] then (None, s) else (Some \<lparr>Authorization = ''Bearer '' @ t\<rparr>, s))"

definition getAuthToken :: "store \<Rightarrow> string option \<times> store" where
  "getAuthToken s = (token s, s)"


section \<open>The watcher of the token (lines 273-294) and the creation of the store\<close>

text \<open>The callback: up to the \<open>await\<close> of line 279, or the whole of lines 287-290.\<close>

definition watch_callback_begin :: "string option \<Rightarrow> store \<Rightarrow> store" where
  "watch_callback_begin newToken s =
     (if truthy newToken then fetchUserInfo_begin s
      else s\<lparr>currentUser := None, balance := None, isInitialized := True\<rparr>)"

text \<open>Lines 279-285 once the request of \<open>fetchUserInfo\<close> has settled.\<close>

definition watch_callback_settle :: "ComfyCloudUser outcome \<Rightarrow> store \<Rightarrow> store" where
  "watch_callback_settle out s =
     (case fetchUserInfo_settle out s of
        (Inr _, s1) \<Rightarrow> s1\<lparr>isInitialized := True\<rparr>
      | (Inl _, s1) \<Rightarrow> s1\<lparr>token := None, isInitialized := True\<rparr>)"

definition watch_callback :: "string option \<Rightarrow> ComfyCloudUser outcome \<Rightarrow> store \<Rightarrow> store" where
  "watch_callback newToken out s =
     (if truthy newToken then watch_callback_settle out (watch_callback_begin newToken s)
      else watch_callback_begin newToken s)"

text \<open>
  The job Vue queues when the token is assigned: it calls the callback when the token
  differs from the value the watcher saw last, and not otherwise. The callback may clear
  the token itself (lines 72 and 283), which queues the job once more.
\<close>

definition watch_job :: "ComfyCloudUser outcome \<Rightarrow> store \<Rightarrow> store" where
  "watch_job out s =
     (if token s = watched s then s
      else watch_callback (token s) out (s\<lparr>watched := token s\<rparr>))"

text \<open>
  Lines 34-40: the refs as they are initialised, \<open>persisted\<close> being what the local storage
  holds under the key \<open>comfy_cloud_token\<close> (nothing: \<open>None\<close>).
\<close>

definition initial :: "string option \<Rightarrow> store" where
  "initial persisted =
     \<lparr>token = persisted, currentUser = None, isInitialized = False, loading = False,
      balance = None, lastBalanceUpdateTime = None, isFetchingBalance = False,
      toasts = [], requests = [], watched = persisted\<rparr>"

text \<open>
  The store as its setup function returns it: \<open>immediate: true\<close> has called the callback
  once with the persisted token, and with a token the request for the user is on its way.
\<close>

definition useComfyCloudAuthStore :: "string option \<Rightarrow> store" where
  "useComfyCloudAuthStore persisted = watch_callback_begin persisted (initial persisted)"


section \<open>Reachable states\<close>

text \<open>
  The states the store passes through: the store as created, and from a state the state
  after any operation, after the watcher's job, and after a response to a request left
  in flight (the user request of the watcher, the balance request fired by login) has
  arrived.
\<close>

inductive reachable :: "store \<Rightarrow> bool" where
  r_create: "reachable (useComfyCloudAuthStore persisted)"
| r_watch_settle: "reachable s \<Longrightarrow> reachable (watch_callback_settle out s)"
| r_watch_job: "reachable s \<Longrightarrow> reachable (watch_job out s)"
| r_login: "reachable s \<Longrightarrow> reachable (snd (login u p lout s))"
| r_register: "reachable s \<Longrightarrow> reachable (snd (register u e p rout s))"
| r_logout: "reachable s \<Longrightarrow> reachable (snd (logout oout s))"
| r_fetchUserInfo: "reachable s \<Longrightarrow> reachable (snd (fetchUserInfo out s))"
| r_fetchBalance: "reachable s \<Longrightarrow> reachable (snd (fetchBalance now bout s))"
| r_fetchBalance_settle: "reachable s \<Longrightarrow> reachable (snd (fetchBalance_settle now bout s))"
| r_refreshToken: "reachable s \<Longrightarrow> reachable (snd (refreshToken tout s))"


section \<open>Example values\<close>

definition alice :: ComfyCloudUser where
  "alice = \<lparr>id' = 1, username = ''alice'', email = ''alice@example.com'', 
            ComfyCloudUser.tier = Pro, ComfyCloudUser.balance = 10, storage_used = 0,
            storage_limit = 100,
            created_at = ''2025-01-01T00:00:00Z'', subscription = None\<rparr>"

definition ten_credits :: ComfyCloudBalance where
  "ten_credits = \<lparr>ComfyCloudBalance.balance = 10, currency = ''USD'', last_updated = ''2025-01-01T00:00:00Z''\<rparr>"

text \<open>A session with token \<open>T1\<close>, user alice and a balance, the watcher having seen the token.\<close>

definition signed_in :: store where
  "signed_in =
     \<lparr>token = Some ''T1'', currentUser = Some alice, isInitialized = True, loading = False,
      balance = Some ten_credits, lastBalanceUpdateTime = Some 1000, isFetchingBalance = False,
      toasts = [], requests = [], watched = Some ''T1''\<rparr>"


definition unauthorized :: "'a response" where
  "unauthorized = \<lparr>status = 401, json = Unparsable ''Unexpected end of JSON input''\<rparr>"

definition not_found :: "'a response" where
  "not_found = \<lparr>status = 404, json = Unparsable ''Unexpected token N''\<rparr>"

text \<open>The store created with the persisted token \<open>T1\<close>, once the server has answered with alice.\<close>

definition resolved_T1 :: store where
  "resolved_T1 =
     watch_callback_settle (Resolved \<lparr>status = 200, json = Parsed None alice\<rparr>)
       (useComfyCloudAuthStore (Some ''T1''))"

text \<open>
  The store created without a token, after a login that the server answers with success,
  the user alice and an empty string for the token.
\<close>

definition empty_token_login :: store where
  "empty_token_login =
     snd (login ''alice'' ''pw''
            (Resolved \<lparr>status = 200,
                       json = Parsed None \<lparr>LoginResponse.token = [], user = alice\<rparr>\<rparr>)
            (useComfyCloudAuthStore None))"

text \<open>The notification of line 228.\<close>

definition logout_toast :: toast where
  "logout_toast =
     \<lparr>severity = Info, summary = Translated ''auth.logout.success'', life = Some 3000\<rparr>"





text \<open>The request of \<open>fetchUserInfo\<close> as it leaves with the token \<open>t\<close>.\<close>

definition user_info_request :: "string \<Rightarrow> request" where
  "user_info_request t =
     \<lparr>http_method = GET, url = ''/api/user/info'',
      headers = [(''Content-Type'', ''application/json''), (''Authorization'', ''Bearer '' @ t)],
      body = None\<rparr>"


text \<open>A refresh answered with the new token \<open>T2\<close>.\<close>

definition rotated :: "string option response" where
  "rotated = \<lparr>status = 200, json = Parsed None (Some ''T2'')\<rparr>"


section \<open>Basic facts\<close>

lemmas request_defs =
  fetch_def fetchWithAuth_begin_def fetchWithAuth_settle_def fetchWithAuth_def toast_add_def

lemma signed_in_authenticated: "isAuthenticated signed_in"
  by (simp add: signed_in_def isAuthenticated_def truthy_def)

lemma signed_in_truthy: "truthy (token signed_in)"
  by (simp add: signed_in_def truthy_def)

lemma created_empty_unauthenticated: "\<not> isAuthenticated (useComfyCloudAuthStore None)"
  by (simp add: useComfyCloudAuthStore_def watch_callback_begin_def initial_def truthy_def
      isAuthenticated_def)

lemma unauthorized_status: "response.status unauthorized = 401"
  by (simp add: unauthorized_def)

lemma fetchWithAuth_settle_401:
  "response.status r = 401 \<Longrightarrow>
   fetchWithAuth_settle (Resolved r) s =
     (Inl userNotAuthenticated, s\<lparr>token := None, currentUser := None\<rparr>)"
  by (simp add: fetchWithAuth_settle_def)

text \<open>The body of logout never throws, whatever the server call did.\<close>

lemma logout_body_eq:
  "logout_body out s =
     (Inr (),
      (if truthy (token s)
       then snd (fetchWithAuth (buildApiUrl ''/auth/logout'') POST out (s\<lparr>loading := True\<rparr>))
       else s\<lparr>loading := True\<rparr>)
      \<lparr>token := None, currentUser := None, store.balance := None, lastBalanceUpdateTime := None,
       toasts := toasts s @ [logout_toast], loading := False\<rparr>)"
  by (cases out)
     (simp_all add: logout_body_def Let_def request_defs logout_toast_def)

lemma logout_cleared:
  "fst (logout out s) = Some () \<and> token (snd (logout out s)) = None
   \<and> currentUser (snd (logout out s)) = None \<and> store.balance (snd (logout out s)) = None
   \<and> toasts (snd (logout out s)) = toasts s @ [logout_toast]"
  by (simp add: logout_def wrapWithErrorHandlingAsync_def logout_body_eq)

text \<open>On a cleared session the watcher's job changes none of the three.\<close>

lemma watch_job_cleared:
  "token s = None \<Longrightarrow> currentUser s = None \<Longrightarrow> store.balance s = None \<Longrightarrow>
   token (watch_job w s) = None \<and> currentUser (watch_job w s) = None
   \<and> store.balance (watch_job w s) = None"
  by (simp add: watch_job_def watch_callback_def watch_callback_begin_def truthy_def)


section \<open>The authentication flag\<close>

text \<open>
  C1, as the code has it. In every reachable state \<open>isAuthenticated\<close> is true exactly when
  \<open>currentUser\<close> is not null and the token is a string that is not empty: line 43 tests
  the truth value of the token, and the empty string is false.
\<close>

theorem isAuthenticated_iff_user_and_nonempty_token:
  "reachable s \<Longrightarrow>
   isAuthenticated s \<longleftrightarrow> (currentUser s \<noteq> None \<and> (\<exists>t. token s = Some t \<and> t \<noteq> []))"
  by (cases "token s") (simp_all add: isAuthenticated_def truthy_def)

theorem isAuthenticated_iff_user_and_nonempty_token_witness:
  "reachable resolved_T1 \<and> isAuthenticated resolved_T1
   \<and> currentUser resolved_T1 = Some alice \<and> token resolved_T1 = Some ''T1''"
proof -
  have r: "reachable resolved_T1"
    unfolding resolved_T1_def by (intro r_watch_settle r_create)
  have u: "currentUser resolved_T1 = Some alice" and t: "token resolved_T1 = Some ''T1''"
    by (simp_all add: resolved_T1_def watch_callback_settle_def fetchUserInfo_settle_def
        fetchWithAuth_settle_def ok_def useComfyCloudAuthStore_def watch_callback_begin_def
        truthy_def fetchUserInfo_begin_def fetchWithAuth_begin_def fetch_def initial_def)
  from isAuthenticated_iff_user_and_nonempty_token [OF r] u t r show ?thesis by simp
qed

text \<open>
  C1 as the claim states it fails. A login that the server answers with an empty token
  leaves, at the end of the login itself, a token and a user that are both not null, and
  \<open>isAuthenticated\<close> false: it is the state in which the \<open>fetchBalance()\<close> of line 154 reads
  the flag.
\<close>

theorem isAuthenticated_nonnull_counterexample:
  "reachable empty_token_login \<and> token empty_token_login \<noteq> None
   \<and> currentUser empty_token_login \<noteq> None \<and> \<not> isAuthenticated empty_token_login"
proof -
  have "reachable empty_token_login"
    unfolding empty_token_login_def by (intro r_login r_create)
  moreover have "token empty_token_login = Some []"
    by (simp add: empty_token_login_def login_def login_body_def wrapWithErrorHandlingAsync_def
        ok_def fetchBalance_fired_def isAuthenticated_def truthy_def request_defs)
  moreover have "currentUser empty_token_login = Some alice"
    by (simp add: empty_token_login_def login_def login_body_def wrapWithErrorHandlingAsync_def
        ok_def fetchBalance_fired_def isAuthenticated_def truthy_def request_defs)
  ultimately show ?thesis by (simp add: isAuthenticated_def truthy_def)
qed


section \<open>A 401 ends the session\<close>

text \<open>
  C2. The request helper answers a 401 by setting the token and the user to null and
  throwing the authentication error, and each of the four operations that go through the
  helper ends with both null when its request is answered with a 401: fetchUserInfo and
  fetchBalance pass the error on, logout and refreshToken catch it.
\<close>

theorem unauthorized_response_clears_session:
  assumes "response.status r = 401" "response.status ru = 401" "response.status rb = 401"
    "response.status rl = 401" "response.status rt = 401"
  shows "fst (fetchWithAuth u m (Resolved r) s) = Inl userNotAuthenticated
       \<and> token (snd (fetchWithAuth u m (Resolved r) s)) = None
       \<and> currentUser (snd (fetchWithAuth u m (Resolved r) s)) = None
       \<and> fst (fetchUserInfo (Resolved ru) s) = Inl userNotAuthenticated
       \<and> token (snd (fetchUserInfo (Resolved ru) s)) = None
       \<and> currentUser (snd (fetchUserInfo (Resolved ru) s)) = None
       \<and> (isAuthenticated s \<longrightarrow>
            fst (fetchBalance now (Resolved rb) s) = Inl userNotAuthenticated
          \<and> token (snd (fetchBalance now (Resolved rb) s)) = None
          \<and> currentUser (snd (fetchBalance now (Resolved rb) s)) = None)
       \<and> token (snd (logout (Resolved rl) s)) = None
       \<and> currentUser (snd (logout (Resolved rl) s)) = None
       \<and> (truthy (token s) \<longrightarrow>
            fst (refreshToken (Resolved rt) s) = Inr None
          \<and> token (snd (refreshToken (Resolved rt) s)) = None
          \<and> currentUser (snd (refreshToken (Resolved rt) s)) = None)"
proof -
  note h = fetchWithAuth_settle_401
  show ?thesis
    by (simp add: fetchWithAuth_def fetchUserInfo_def fetchUserInfo_settle_def
        fetchBalance_def fetchBalance_settle_def refreshToken_def refreshToken_try_def
        logout_cleared h [OF assms(1)] h [OF assms(2)] h [OF assms(3)] h [OF assms(5)])
qed

theorem unauthorized_response_clears_session_witness:
  "isAuthenticated signed_in \<and> truthy (token signed_in)
   \<and> fst (fetchUserInfo (Resolved unauthorized) signed_in) = Inl userNotAuthenticated
   \<and> token (snd (fetchUserInfo (Resolved unauthorized) signed_in)) = None
   \<and> fst (fetchBalance 2000 (Resolved unauthorized) signed_in) = Inl userNotAuthenticated
   \<and> currentUser (snd (fetchBalance 2000 (Resolved unauthorized) signed_in)) = None
   \<and> token (snd (logout (Resolved unauthorized) signed_in)) = None
   \<and> fst (refreshToken (Resolved unauthorized) signed_in) = Inr None
   \<and> token (snd (refreshToken (Resolved unauthorized) signed_in)) = None"
proof -
  note h = unauthorized_status
  show ?thesis
    using signed_in_authenticated signed_in_truthy
      unauthorized_response_clears_session
        [OF h [where 'a = unit] h h h h, of "''/api/user/info''" GET signed_in 2000]
    by blast
qed


section \<open>logout\<close>

text \<open>
  C3. From every state and whatever becomes of the server call (a network error, a 401,
  any response), logout throws nothing, its body throws nothing either, and it ends with
  token, user and balance null; the only notification it adds is the informational one.
  The watcher's job that follows leaves the three null. In particular a login, the
  watcher's job after it and a logout end with the three null.
\<close>

theorem logout_always_clears_session:
  "fst (logout_body out s) = Inr ()
   \<and> fst (logout out s) = Some ()
   \<and> token (snd (logout out s)) = None
   \<and> currentUser (snd (logout out s)) = None
   \<and> store.balance (snd (logout out s)) = None
   \<and> toasts (snd (logout out s)) = toasts s @ [logout_toast]
   \<and> token (watch_job w (snd (logout out s))) = None
   \<and> currentUser (watch_job w (snd (logout out s))) = None
   \<and> store.balance (watch_job w (snd (logout out s))) = None
   \<and> token (snd (logout out (watch_job w' (snd (login u p lout s))))) = None
   \<and> currentUser (snd (logout out (watch_job w' (snd (login u p lout s))))) = None
   \<and> store.balance (snd (logout out (watch_job w' (snd (login u p lout s))))) = None"
  using logout_cleared [of out s] logout_cleared [of out "watch_job w' (snd (login u p lout s))"]
    watch_job_cleared [of "snd (logout out s)" w]
  by (simp add: logout_body_eq)

text \<open>The scenario of the spec: a logout while the backend cannot be reached.\<close>

theorem logout_always_clears_session_witness:
  "fst (logout (Rejected ''Failed to fetch'') signed_in) = Some ()
   \<and> token (snd (logout (Rejected ''Failed to fetch'') signed_in)) = None
   \<and> currentUser (snd (logout (Rejected ''Failed to fetch'') signed_in)) = None
   \<and> store.balance (snd (logout (Rejected ''Failed to fetch'') signed_in)) = None
   \<and> toasts (snd (logout (Rejected ''Failed to fetch'') signed_in)) = [logout_toast]"
  using logout_always_clears_session [of "Rejected ''Failed to fetch''" signed_in]
  by (simp add: signed_in_def)


section \<open>fetchBalance\<close>

text \<open>
  C4. While \<open>isAuthenticated\<close> is false, fetchBalance returns null and leaves the whole
  state as it was: no request is handed to the transport, the balance and its time stay.
\<close>

theorem fetchBalance_unauthenticated_noop:
  "\<not> isAuthenticated s \<Longrightarrow> fetchBalance now out s = (Inr None, s)"
  by (simp add: fetchBalance_def)

theorem fetchBalance_unauthenticated_noop_witness:
  "\<not> isAuthenticated (useComfyCloudAuthStore None)
   \<and> fetchBalance 2000 (Resolved \<lparr>status = 200, json = Parsed None ten_credits\<rparr>)
        (useComfyCloudAuthStore None) = (Inr None, useComfyCloudAuthStore None)"
  using created_empty_unauthenticated
    fetchBalance_unauthenticated_noop [OF created_empty_unauthenticated, of 2000
      "Resolved \<lparr>status = 200, json = Parsed None ten_credits\<rparr>"]
  by simp

text \<open>
  C5. Authenticated, with the backend answering 404, fetchBalance returns null, throws
  nothing, and the stored balance and its time are what they were.
\<close>

theorem fetchBalance_not_found_noop:
  assumes "isAuthenticated s" "response.status r = 404"
  shows "fst (fetchBalance now (Resolved r) s) = Inr None
       \<and> store.balance (snd (fetchBalance now (Resolved r) s)) = store.balance s
       \<and> lastBalanceUpdateTime (snd (fetchBalance now (Resolved r) s)) = lastBalanceUpdateTime s"
  using assms
  by (simp add: fetchBalance_def fetchBalance_settle_def fetchBalance_begin_def request_defs
      ok_def)

theorem fetchBalance_not_found_noop_witness:
  "isAuthenticated signed_in
   \<and> fst (fetchBalance 2000 (Resolved not_found) signed_in) = Inr None
   \<and> store.balance (snd (fetchBalance 2000 (Resolved not_found) signed_in)) = Some ten_credits
   \<and> lastBalanceUpdateTime (snd (fetchBalance 2000 (Resolved not_found) signed_in)) = Some 1000"
proof -
  have h: "response.status (not_found :: ComfyCloudBalance response) = 404"
    by (simp add: not_found_def)
  show ?thesis
    using signed_in_authenticated
      fetchBalance_not_found_noop [OF signed_in_authenticated h, of 2000]
    by (simp add: signed_in_def)
qed


section \<open>login\<close>







section \<open>refreshToken\<close>

text \<open>refreshToken with its \<open>try\<close> and \<open>catch\<close> resolved, path by path.\<close>

lemma refreshToken_eq:
  "refreshToken out s =
     (if \<not> truthy (token s) then (Inr None, s)
      else let s0 = fetchWithAuth_begin (buildApiUrl ''/auth/refresh'') POST s in
        (case out of
           Rejected m \<Rightarrow> (Inr None, s0)
         | Resolved r \<Rightarrow>
             if response.status r = 401
             then (Inr None, s0\<lparr>token := None, currentUser := None\<rparr>)
             else if \<not> ok r then (Inr None, s0)
             else (case json r of
                     Unparsable m \<Rightarrow> (Inr None, s0)
                   | JsonNull \<Rightarrow> (Inr None, s0)
                   | Parsed e d \<Rightarrow> (Inr d, s0\<lparr>token := d\<rparr>))))"
  by (simp add: refreshToken_def refreshToken_try_def fetchWithAuth_def fetchWithAuth_settle_def
      Let_def split: outcome.split json_body.split)

lemma refreshToken_returns: "\<exists>v. fst (refreshToken out s) = Inr v"
  by (simp add: refreshToken_eq Let_def split: outcome.split json_body.split)

lemma refreshToken_failures:
  "\<not> truthy (token s) \<Longrightarrow> refreshToken out s = (Inr None, s)"
  "fst (refreshToken (Rejected m) s) = Inr None"
  "\<not> ok r \<or> response.status r = 401 \<Longrightarrow> fst (refreshToken (Resolved r) s) = Inr None"
  by (auto simp add: refreshToken_eq Let_def)

lemma refreshToken_new_token:
  assumes "fst (refreshToken out s) = Inr (Some t)"
  shows "truthy (token s) \<and> (\<exists>r e. out = Resolved r \<and> ok r \<and> json r = Parsed e (Some t))
       \<and> token (snd (refreshToken out s)) = Some t"
proof -
  from assms have t: "truthy (token s)" by (auto simp add: refreshToken_eq split: if_splits)
  from assms t obtain r where r: "out = Resolved r"
    by (cases out) (simp_all add: refreshToken_eq Let_def)
  from assms t r have k: "ok r" "response.status r \<noteq> 401"
    by (auto simp add: refreshToken_eq Let_def split: if_splits)
  from assms t r k obtain e where e: "json r = Parsed e (Some t)"
    by (cases "json r") (simp_all add: refreshToken_eq Let_def)
  from t r k e show ?thesis by (simp add: refreshToken_eq Let_def)
qed

text \<open>
  C7. refreshToken always returns and never throws. It returns null when no token is
  stored (and then does nothing at all), when the transport fails, and when the response
  is not a success, a 401 included. It returns a token only when a token was stored and
  the backend answered with success and that token in the body, and then that token is
  the stored one.
\<close>

theorem refreshToken_never_throws:
  "(\<exists>v. fst (refreshToken out s) = Inr v)
   \<and> (\<not> truthy (token s) \<longrightarrow> refreshToken out s = (Inr None, s))
   \<and> ((\<exists>m. out = Rejected m) \<longrightarrow> fst (refreshToken out s) = Inr None)
   \<and> ((\<exists>r. out = Resolved r \<and> (\<not> ok r \<or> response.status r = 401))
        \<longrightarrow> fst (refreshToken out s) = Inr None)
   \<and> (\<forall>t. fst (refreshToken out s) = Inr (Some t) \<longrightarrow>
          truthy (token s)
        \<and> (\<exists>r e. out = Resolved r \<and> ok r \<and> json r = Parsed e (Some t))
        \<and> token (snd (refreshToken out s)) = Some t)"
proof (intro conjI impI allI)
  show "\<exists>v. fst (refreshToken out s) = Inr v" by (rule refreshToken_returns)
next
  assume "\<not> truthy (token s)"
  then show "refreshToken out s = (Inr None, s)" by (rule refreshToken_failures)
next
  assume "\<exists>m. out = Rejected m"
  then show "fst (refreshToken out s) = Inr None" by (auto simp add: refreshToken_failures)
next
  assume "\<exists>r. out = Resolved r \<and> (\<not> ok r \<or> response.status r = 401)"
  then show "fst (refreshToken out s) = Inr None" by (auto simp add: refreshToken_failures)
next
  fix t assume a: "fst (refreshToken out s) = Inr (Some t)"
  note n = refreshToken_new_token [OF a]
  from n show "truthy (token s)" by simp
  from n show "\<exists>r e. out = Resolved r \<and> ok r \<and> json r = Parsed e (Some t)" by simp
  from n show "token (snd (refreshToken out s)) = Some t" by simp
qed

theorem refreshToken_never_throws_witness:
  "fst (refreshToken (Resolved rotated) signed_in) = Inr (Some ''T2'')
   \<and> token (snd (refreshToken (Resolved rotated) signed_in)) = Some ''T2''
   \<and> fst (refreshToken (Rejected ''Failed to fetch'') signed_in) = Inr None
   \<and> fst (refreshToken (Resolved unauthorized) signed_in) = Inr None
   \<and> fst (refreshToken (Resolved rotated) (useComfyCloudAuthStore None)) = Inr None"
proof -
  have a: "fst (refreshToken (Resolved rotated) signed_in) = Inr (Some ''T2'')"
    by (simp add: refreshToken_eq rotated_def ok_def signed_in_truthy Let_def)
  have b: "\<not> truthy (token (useComfyCloudAuthStore None))"
    by (simp add: useComfyCloudAuthStore_def watch_callback_begin_def initial_def truthy_def)
  have c: "response.status (unauthorized :: string option response) = 401"
    by (rule unauthorized_status)
  from refreshToken_never_throws [of "Resolved rotated" signed_in] a
  have 1: "token (snd (refreshToken (Resolved rotated) signed_in)) = Some ''T2''" by blast
  from refreshToken_never_throws [of "Rejected ''Failed to fetch''" signed_in]
  have 2: "fst (refreshToken (Rejected ''Failed to fetch'') signed_in) = Inr None" by blast
  from refreshToken_never_throws [of "Resolved unauthorized" signed_in] c
  have 3: "fst (refreshToken (Resolved unauthorized) signed_in) = Inr None" by blast
  from refreshToken_never_throws [of "Resolved rotated" "useComfyCloudAuthStore None"] b
  have 4: "fst (refreshToken (Resolved rotated) (useComfyCloudAuthStore None)) = Inr None"
    by simp
  from a 1 2 3 4 show ?thesis by simp
qed

text \<open>
  C10. With a token stored that the watcher has seen, a refresh answered with a 401
  returns null like any other failure, yet it has set token and user to null; the balance
  is still there when refreshToken returns and is null after the watcher's job for the
  change of the token.
\<close>

theorem refreshToken_unauthorized_logs_out:
  assumes "truthy (token s)" "response.status r = 401" "watched s = token s"
  shows "fst (refreshToken (Resolved r) s) = Inr None
       \<and> token (snd (refreshToken (Resolved r) s)) = None
       \<and> currentUser (snd (refreshToken (Resolved r) s)) = None
       \<and> store.balance (snd (refreshToken (Resolved r) s)) = store.balance s
       \<and> token (watch_job w (snd (refreshToken (Resolved r) s))) = None
       \<and> currentUser (watch_job w (snd (refreshToken (Resolved r) s))) = None
       \<and> store.balance (watch_job w (snd (refreshToken (Resolved r) s))) = None"
  using assms
  by (auto simp add: refreshToken_eq Let_def fetchWithAuth_begin_def fetch_def watch_job_def
      watch_callback_def watch_callback_begin_def truthy_def split: option.splits)

theorem refreshToken_unauthorized_logs_out_witness:
  "fst (refreshToken (Resolved unauthorized) signed_in) = Inr None
   \<and> store.balance (snd (refreshToken (Resolved unauthorized) signed_in)) = Some ten_credits
   \<and> token (watch_job (Rejected []) (snd (refreshToken (Resolved unauthorized) signed_in)))
       = None
   \<and> currentUser (watch_job (Rejected []) (snd (refreshToken (Resolved unauthorized) signed_in)))
       = None
   \<and> store.balance (watch_job (Rejected []) (snd (refreshToken (Resolved unauthorized) signed_in)))
       = None"
proof -
  have w: "watched signed_in = token signed_in" by (simp add: signed_in_def)
  show ?thesis
    using refreshToken_unauthorized_logs_out
      [OF signed_in_truthy unauthorized_status w, of "Rejected []"]
    by (simp add: signed_in_def)
qed


section \<open>The start of the process\<close>

lemma created_with_token:
  "t \<noteq> [] \<Longrightarrow>
   useComfyCloudAuthStore (Some t) = (initial (Some t))\<lparr>requests := [user_info_request t]\<rparr>"
  by (simp add: useComfyCloudAuthStore_def watch_callback_begin_def truthy_def
      fetchUserInfo_begin_def fetchWithAuth_begin_def fetch_def initial_def auth_headers_def
      user_info_request_def buildApiUrl_def API_BASE_def)

text \<open>
  The callback, once its request has settled: the store is initialised, no request was
  added, and the token is null if \<open>fetchUserInfo\<close> threw and untouched if it did not.
\<close>

lemma watch_callback_settle_facts:
  "isInitialized (watch_callback_settle out s)
   \<and> requests (watch_callback_settle out s) = requests s
   \<and> watched (watch_callback_settle out s) = watched s
   \<and> (isl (fst (fetchUserInfo_settle out s)) \<longrightarrow> token (watch_callback_settle out s) = None)
   \<and> (\<not> isl (fst (fetchUserInfo_settle out s))
        \<longrightarrow> token (watch_callback_settle out s) = token s)"
  by (simp add: watch_callback_settle_def fetchUserInfo_settle_def fetchWithAuth_settle_def
      split: outcome.split json_body.split)

lemma watch_job_after_settle:
  assumes "isInitialized s" "token s = None \<or> token s = watched s"
  shows "isInitialized (watch_job w s) \<and> requests (watch_job w s) = requests s
       \<and> (token s = None \<longrightarrow> token (watch_job w s) = None)"
  using assms
  by (auto simp add: watch_job_def watch_callback_def watch_callback_begin_def truthy_def)

text \<open>
  C8. With a token persisted (a string that is not empty, what line 277 calls a token that
  exists), the store as created is not initialised and has handed exactly one request to
  the transport, the one of \<open>fetchUserInfo\<close> with that token. Once the request has settled,
  whatever the outcome, the store is initialised and no other request has been made, and
  so it stays after the watcher's job that a cleared token queues. If \<open>fetchUserInfo\<close>
  threw, the token is null.
\<close>

theorem persisted_token_resolved_once:
  assumes "persisted = Some t" "t \<noteq> []"
  shows "\<not> isInitialized (useComfyCloudAuthStore persisted)
       \<and> requests (useComfyCloudAuthStore persisted) = [user_info_request t]
       \<and> isInitialized (watch_callback_settle out (useComfyCloudAuthStore persisted))
       \<and> requests (watch_callback_settle out (useComfyCloudAuthStore persisted))
           = [user_info_request t]
       \<and> isInitialized (watch_job w (watch_callback_settle out (useComfyCloudAuthStore persisted)))
       \<and> requests (watch_job w (watch_callback_settle out (useComfyCloudAuthStore persisted)))
           = [user_info_request t]
       \<and> (isl (fst (fetchUserInfo_settle out (useComfyCloudAuthStore persisted))) \<longrightarrow>
            token (watch_callback_settle out (useComfyCloudAuthStore persisted)) = None
          \<and> token (watch_job w (watch_callback_settle out (useComfyCloudAuthStore persisted)))
              = None)"
proof -
  let ?s0 = "useComfyCloudAuthStore persisted"
  let ?s1 = "watch_callback_settle out ?s0"
  have s0: "?s0 = (initial (Some t))\<lparr>requests := [user_info_request t]\<rparr>"
    using assms by (simp add: created_with_token)
  have i0: "\<not> isInitialized ?s0" and r0: "requests ?s0 = [user_info_request t]"
    and w0: "watched ?s0 = token ?s0"
    by (simp_all add: s0 initial_def)
  note f = watch_callback_settle_facts [of out ?s0]
  from f w0 have d: "token ?s1 = None \<or> token ?s1 = watched ?s1" by auto
  from f have i1: "isInitialized ?s1" by simp
  note j = watch_job_after_settle [OF i1 d, of w]
  from i0 r0 f j show ?thesis by simp
qed

theorem persisted_token_resolved_once_witness:
  "\<not> isInitialized (useComfyCloudAuthStore (Some ''T1''))
   \<and> requests (watch_job (Rejected []) (watch_callback_settle (Rejected ''Failed to fetch'')
        (useComfyCloudAuthStore (Some ''T1'')))) = [user_info_request ''T1'']
   \<and> isInitialized (watch_job (Rejected []) (watch_callback_settle (Rejected ''Failed to fetch'')
        (useComfyCloudAuthStore (Some ''T1''))))
   \<and> token (watch_job (Rejected []) (watch_callback_settle (Rejected ''Failed to fetch'')
        (useComfyCloudAuthStore (Some ''T1'')))) = None"
proof -
  have h: "isl (fst (fetchUserInfo_settle (Rejected ''Failed to fetch'')
             (useComfyCloudAuthStore (Some ''T1''))))"
    by (simp add: fetchUserInfo_settle_def fetchWithAuth_settle_def)
  have n: "''T1'' \<noteq> []" by simp
  from persisted_token_resolved_once [OF refl n, of "Rejected ''Failed to fetch''" "Rejected []"] h
  show ?thesis by simp
qed


section \<open>The accessors\<close>

text \<open>
  C9, as the code has it. getAuthHeader and getAuthToken leave the state as it is and
  read the token alone, not the authentication flag: getAuthToken returns the token as
  stored; getAuthHeader returns null when the token is null or the empty string and the
  Bearer header of the token otherwise. Both return null when the token is null.
\<close>

theorem accessors_read_token:
  "snd (getAuthHeader s) = s \<and> snd (getAuthToken s) = s
   \<and> fst (getAuthToken s) = token s
   \<and> (token s = None \<longrightarrow> fst (getAuthHeader s) = None \<and> fst (getAuthToken s) = None)
   \<and> (\<not> truthy (token s) \<longrightarrow> fst (getAuthHeader s) = None)
   \<and> (\<forall>t. token s = Some t \<and> t \<noteq> [] \<longrightarrow>
         fst (getAuthHeader s) = Some \<lparr>Authorization = ''Bearer '' @ t\<rparr>)"
  by (cases "token s") (simp_all add: getAuthHeader_def getAuthToken_def truthy_def)

theorem accessors_read_token_witness:
  "fst (getAuthHeader signed_in) = Some \<lparr>Authorization = ''Bearer T1''\<rparr>
   \<and> fst (getAuthToken signed_in) = Some ''T1''
   \<and> snd (getAuthHeader signed_in) = signed_in
   \<and> fst (getAuthHeader (useComfyCloudAuthStore None)) = None
   \<and> fst (getAuthToken (useComfyCloudAuthStore None)) = None"
proof -
  have a: "token signed_in = Some ''T1''" by (simp add: signed_in_def)
  have b: "token (useComfyCloudAuthStore None) = None"
    by (simp add: useComfyCloudAuthStore_def watch_callback_begin_def initial_def truthy_def)
  show ?thesis
    using a b accessors_read_token [of signed_in]
      accessors_read_token [of "useComfyCloudAuthStore None"]
    by simp
qed

text \<open>
  C9 as the claim states it fails. The store created with the persisted token \<open>T1\<close> is not
  authenticated while the user has not been resolved, and both accessors already return
  the token.
\<close>

theorem accessors_unauthenticated_counterexample:
  "reachable (useComfyCloudAuthStore (Some ''T1''))
   \<and> \<not> isAuthenticated (useComfyCloudAuthStore (Some ''T1''))
   \<and> fst (getAuthToken (useComfyCloudAuthStore (Some ''T1''))) = Some ''T1''
   \<and> fst (getAuthHeader (useComfyCloudAuthStore (Some ''T1'')))
       = Some \<lparr>Authorization = ''Bearer T1''\<rparr>"
proof -
  have "reachable (useComfyCloudAuthStore (Some ''T1''))" by (rule r_create)
  then show ?thesis
    by (simp add: isAuthenticated_def getAuthToken_def getAuthHeader_def created_with_token
        initial_def)
qed

end
